theory Spec2Isabelle
  imports Main "HOL-Library.Monad_Syntax"
begin

section \<open>The data model of redblacktree.go\<close>

text \<open>
  The engine is the Go type \<open>Tree\<close> of \<^verbatim>\<open>redblacktree.go\<close>: a root pointer, a size
  counter and a comparator, over heap-allocated \<open>Node\<close> objects linked by \<open>left\<close>,
  \<open>right\<close> and \<open>parent\<close> pointers. The model keeps the pointers: a pointer is
  \<open>nat option\<close>, \<open>None\<close> being \<open>nil\<close> and \<open>Some a\<close> the address of the \<open>a\<close>-th
  allocated node; the allocated nodes are the list \<open>nodes\<close> of the tree state. Every
  function of the source that reads or writes through a pointer becomes a function from
  the state into \<open>option\<close>, where \<open>None\<close> stands for the Go program not returning
  normally (a nil dereference panics, a loop over a cyclic structure runs forever).

  \<open>type color bool\<close> with \<open>black, red = true, false\<close> is a two-valued datatype. A
  \<open>Value\<close> is an interface with the accessors \<open>ID()\<close> and \<open>String()\<close>; it is modelled
  by what the two return. A slice \<open>[]Value\<close> is a list, and the nil slice is the empty
  list: the code only takes \<open>len\<close>, \<open>range\<close> and \<open>append\<close> of the slices, which do
  not tell the two apart. The field \<open>values\<close> is written \<open>vals\<close> and the field \<open>size\<close>
  is written \<open>size'\<close>, since Isabelle reserves the first name and overloads the second.
  \<open>size\<close> is a Go \<open>int\<close>; it counts stored values, which the memory bounds far below
  \<open>2^63\<close>, so it is modelled by \<open>int\<close>.

  Keys are \<open>interface{}\<close> values ordered by the comparator handed to \<open>NewWith\<close>. The
  model takes any linearly ordered type of keys and the three-way comparator of that
  order (as \<open>utils.IntComparator\<close> is for \<open>int\<close>); a nil key is \<open>None\<close>.
  The read/write lock only serialises callers and is left out.
\<close>

datatype color = black | red

datatype Value = Value (ID: string) (String: string)

record 'k Node =
  key :: 'k
  vals :: "Value list"
  color :: color
  left :: "nat option"
  right :: "nat option"
  parent :: "nat option"

record 'k Tree =
  root :: "nat option"
  size' :: int
  nodes :: "'k Node list"

definition comparator :: "'k::linorder \<Rightarrow> 'k \<Rightarrow> int" where
  "comparator a b = (if a < b then - 1 else if a = b then 0 else 1)"

text \<open>\<open>NewWith\<close> with a non-nil comparator: no root, size zero, nothing allocated.\<close>

definition NewWith :: "'k Tree" where
  "NewWith = \<lparr>root = None, size' = 0, nodes = []\<rparr>"

subsection \<open>Pointers\<close>

text \<open>Reading through a pointer: \<open>nil\<close> panics.\<close>

definition deref :: "'k Tree \<Rightarrow> nat option \<Rightarrow> 'k Node option" where
  "deref t p = (case p of None \<Rightarrow> None
     | Some a \<Rightarrow> if a < length (nodes t) then Some (nodes t ! a) else None)"

text \<open>Assigning to fields of the node a pointer refers to: \<open>nil\<close> panics.\<close>

definition update :: "'k Tree \<Rightarrow> nat option \<Rightarrow> ('k Node \<Rightarrow> 'k Node) \<Rightarrow> 'k Tree option" where
  "update t p f = (case p of None \<Rightarrow> None
     | Some a \<Rightarrow> if a < length (nodes t)
         then Some (t\<lparr>nodes := (nodes t)[a := f (nodes t ! a)]\<rparr>) else None)"

text \<open>\<open>&Node{key: key, values: []Value{value}, color: red}\<close>: a fresh address.\<close>

definition new_node :: "'k Tree \<Rightarrow> 'k \<Rightarrow> Value \<Rightarrow> nat option \<times> 'k Tree" where
  "new_node t k v = (Some (length (nodes t)),
     t\<lparr>nodes := nodes t @ [\<lparr>key = k, vals = [v], color = red,
                             left = None, right = None, parent = None\<rparr>]\<rparr>)"

text \<open>The short-circuit \<open>&&\<close> of Go over conditions that may panic.\<close>

definition cand :: "bool option \<Rightarrow> bool option \<Rightarrow> bool option" where
  "cand a b = (case a of None \<Rightarrow> None | Some x \<Rightarrow> if x then b else Some False)"

subsection \<open>Node helpers\<close>

definition nodeColor :: "'k Tree \<Rightarrow> nat option \<Rightarrow> color option" where
  "nodeColor t node = (if node = None then Some black else map_option color (deref t node))"

definition sibling :: "'k Tree \<Rightarrow> nat option \<Rightarrow> nat option option" where
  "sibling t node =
    (if node = None then Some None
     else do {
       n \<leftarrow> deref t node;
       if parent n = None then Some None
       else do {
         p \<leftarrow> deref t (parent n);
         if node = left p then Some (right p) else Some (left p)
       }
     })"

definition grandparent :: "'k Tree \<Rightarrow> nat option \<Rightarrow> nat option option" where
  "grandparent t node =
    (if node \<noteq> None then do {
       n \<leftarrow> deref t node;
       if parent n \<noteq> None then do {
         p \<leftarrow> deref t (parent n);
         Some (parent p)
       } else Some None
     } else Some None)"

definition uncle :: "'k Tree \<Rightarrow> nat option \<Rightarrow> nat option option" where
  "uncle t node =
    (if node = None then Some None
     else do {
       n \<leftarrow> deref t node;
       if parent n = None then Some None
       else do {
         p \<leftarrow> deref t (parent n);
         if parent p = None then Some None else sibling t (parent n)
       }
     })"

partial_function (option) maximumNode :: "'k Tree \<Rightarrow> nat option \<Rightarrow> nat option option" where
  "maximumNode t node =
    (if node = None then Some None
     else do {
       n \<leftarrow> deref t node;
       if right n \<noteq> None then maximumNode t (right n) else Some node
     })"

declare maximumNode.simps [code]

subsection \<open>Rotations\<close>

definition replaceNode :: "'k Tree \<Rightarrow> nat option \<Rightarrow> nat option \<Rightarrow> 'k Tree option" where
  "replaceNode t old new = do {
     od \<leftarrow> deref t old;
     t1 \<leftarrow> (if parent od = None then Some (t\<lparr>root := new\<rparr>)
            else do {
              p \<leftarrow> deref t (parent od);
              if old = left p then update t (parent od) (\<lambda>n. n\<lparr>left := new\<rparr>)
              else update t (parent od) (\<lambda>n. n\<lparr>right := new\<rparr>)
            });
     if new \<noteq> None then do {
       od1 \<leftarrow> deref t1 old;
       update t1 new (\<lambda>n. n\<lparr>parent := parent od1\<rparr>)
     } else Some t1
   }"

definition rotateLeft :: "'k Tree \<Rightarrow> nat option \<Rightarrow> 'k Tree option" where
  "rotateLeft t node = do {
     n \<leftarrow> deref t node;
     let r = right n;
     t1 \<leftarrow> replaceNode t node r;
     rd \<leftarrow> deref t1 r;
     t2 \<leftarrow> update t1 node (\<lambda>n. n\<lparr>right := left rd\<rparr>);
     rd2 \<leftarrow> deref t2 r;
     t3 \<leftarrow> (if left rd2 \<noteq> None then update t2 (left rd2) (\<lambda>n. n\<lparr>parent := node\<rparr>)
            else Some t2);
     t4 \<leftarrow> update t3 r (\<lambda>n. n\<lparr>left := node\<rparr>);
     update t4 node (\<lambda>n. n\<lparr>parent := r\<rparr>)
   }"

definition rotateRight :: "'k Tree \<Rightarrow> nat option \<Rightarrow> 'k Tree option" where
  "rotateRight t node = do {
     n \<leftarrow> deref t node;
     let l = left n;
     t1 \<leftarrow> replaceNode t node l;
     ld \<leftarrow> deref t1 l;
     t2 \<leftarrow> update t1 node (\<lambda>n. n\<lparr>left := right ld\<rparr>);
     ld2 \<leftarrow> deref t2 l;
     t3 \<leftarrow> (if right ld2 \<noteq> None then update t2 (right ld2) (\<lambda>n. n\<lparr>parent := node\<rparr>)
            else Some t2);
     t4 \<leftarrow> update t3 l (\<lambda>n. n\<lparr>right := node\<rparr>);
     update t4 node (\<lambda>n. n\<lparr>parent := l\<rparr>)
   }"

subsection \<open>Insertion fix-up\<close>

text \<open>
  \<open>insertCase1\<close>, \<open>insertCase2\<close> and \<open>insertCase3\<close> call each other in a cycle. The
  bodies of cases 2 and 3 are written first, over the function they call back
  (\<open>insertCase1\<close>), and the cycle is closed by the definition of \<open>insertCase1\<close>.
\<close>

definition insertCase5 :: "'k Tree \<Rightarrow> nat option \<Rightarrow> 'k Tree option" where
  "insertCase5 t node = do {
     n \<leftarrow> deref t node;
     t1 \<leftarrow> update t (parent n) (\<lambda>p. p\<lparr>color := black\<rparr>);
     g \<leftarrow> grandparent t1 node;
     t2 \<leftarrow> update t1 g (\<lambda>p. p\<lparr>color := red\<rparr>);
     n2 \<leftarrow> deref t2 node;
     p2 \<leftarrow> deref t2 (parent n2);
     g2 \<leftarrow> deref t2 g;
     if node = left p2 \<and> parent n2 = left g2 then rotateRight t2 g
     else if node = right p2 \<and> parent n2 = right g2 then rotateLeft t2 g
     else Some t2
   }"

definition insertCase4 :: "'k Tree \<Rightarrow> nat option \<Rightarrow> 'k Tree option" where
  "insertCase4 t node = do {
     g \<leftarrow> grandparent t node;
     n \<leftarrow> deref t node;
     p \<leftarrow> deref t (parent n);
     c1 \<leftarrow> cand (Some (node = right p)) (do { gd \<leftarrow> deref t g; Some (parent n = left gd) });
     if c1 then do {
       t1 \<leftarrow> rotateLeft t (parent n);
       n1 \<leftarrow> deref t1 node;
       insertCase5 t1 (left n1)
     } else do {
       c2 \<leftarrow> cand (Some (node = left p)) (do { gd \<leftarrow> deref t g; Some (parent n = right gd) });
       if c2 then do {
         t1 \<leftarrow> rotateRight t (parent n);
         n1 \<leftarrow> deref t1 node;
         insertCase5 t1 (right n1)
       } else insertCase5 t node
     }
   }"

definition insertCase3_body ::
    "('k Tree \<Rightarrow> nat option \<Rightarrow> 'k Tree option) \<Rightarrow> 'k Tree \<Rightarrow> nat option \<Rightarrow> 'k Tree option" where
  "insertCase3_body insertCase1' t node = do {
     u \<leftarrow> uncle t node;
     c \<leftarrow> nodeColor t u;
     if c = red then do {
       n \<leftarrow> deref t node;
       t1 \<leftarrow> update t (parent n) (\<lambda>p. p\<lparr>color := black\<rparr>);
       t2 \<leftarrow> update t1 u (\<lambda>p. p\<lparr>color := black\<rparr>);
       g \<leftarrow> grandparent t2 node;
       t3 \<leftarrow> update t2 g (\<lambda>p. p\<lparr>color := red\<rparr>);
       g' \<leftarrow> grandparent t3 node;
       insertCase1' t3 g'
     } else insertCase4 t node
   }"

definition insertCase2_body ::
    "('k Tree \<Rightarrow> nat option \<Rightarrow> 'k Tree option) \<Rightarrow> 'k Tree \<Rightarrow> nat option \<Rightarrow> 'k Tree option" where
  "insertCase2_body insertCase1' t node = do {
     n \<leftarrow> deref t node;
     c \<leftarrow> nodeColor t (parent n);
     if c = black then Some t
     else insertCase3_body insertCase1' t node
   }"

lemma insertCase3_body_mono [partial_function_mono]:
  assumes "\<And>t n. mono_option (\<lambda>f. F f t n)"
  shows "mono_option (\<lambda>f. insertCase3_body (F f) t0 n0)"
  unfolding insertCase3_body_def by (intro partial_function_mono assms)

lemma insertCase2_body_mono [partial_function_mono]:
  assumes "\<And>t n. mono_option (\<lambda>f. F f t n)"
  shows "mono_option (\<lambda>f. insertCase2_body (F f) t0 n0)"
  unfolding insertCase2_body_def by (intro partial_function_mono assms)

partial_function (option) insertCase1 :: "'k Tree \<Rightarrow> nat option \<Rightarrow> 'k Tree option" where
  "insertCase1 t node = do {
     n \<leftarrow> deref t node;
     if parent n = None then update t node (\<lambda>n. n\<lparr>color := black\<rparr>)
     else insertCase2_body insertCase1 t node
   }"

declare insertCase1.simps [code]

definition insertCase2 :: "'k Tree \<Rightarrow> nat option \<Rightarrow> 'k Tree option" where
  "insertCase2 = insertCase2_body insertCase1"

definition insertCase3 :: "'k Tree \<Rightarrow> nat option \<Rightarrow> 'k Tree option" where
  "insertCase3 = insertCase3_body insertCase1"

subsection \<open>Deletion fix-up\<close>

text \<open>
  \<open>deleteCase1\<close>, \<open>deleteCase2\<close> and \<open>deleteCase3\<close> form the same kind of cycle.
  The conditions of cases 3 to 5 read \<open>sibling.left\<close> and \<open>sibling.right\<close> only after
  the conjuncts before them hold, as Go's \<open>&&\<close> does.
\<close>

definition deleteCase6 :: "'k Tree \<Rightarrow> nat option \<Rightarrow> 'k Tree option" where
  "deleteCase6 t node = do {
     s \<leftarrow> sibling t node;
     n \<leftarrow> deref t node;
     c \<leftarrow> nodeColor t (parent n);
     t1 \<leftarrow> update t s (\<lambda>x. x\<lparr>color := c\<rparr>);
     n1 \<leftarrow> deref t1 node;
     t2 \<leftarrow> update t1 (parent n1) (\<lambda>x. x\<lparr>color := black\<rparr>);
     n2 \<leftarrow> deref t2 node;
     p2 \<leftarrow> deref t2 (parent n2);
     c1 \<leftarrow> cand (Some (node = left p2))
            (do { sd \<leftarrow> deref t2 s; cr \<leftarrow> nodeColor t2 (right sd); Some (cr = red) });
     if c1 then do {
       sd \<leftarrow> deref t2 s;
       t3 \<leftarrow> update t2 (right sd) (\<lambda>x. x\<lparr>color := black\<rparr>);
       n3 \<leftarrow> deref t3 node;
       rotateLeft t3 (parent n3)
     } else do {
       sd \<leftarrow> deref t2 s;
       cl \<leftarrow> nodeColor t2 (left sd);
       if cl = red then do {
         t3 \<leftarrow> update t2 (left sd) (\<lambda>x. x\<lparr>color := black\<rparr>);
         n3 \<leftarrow> deref t3 node;
         rotateRight t3 (parent n3)
       } else Some t2
     }
   }"

definition deleteCase5 :: "'k Tree \<Rightarrow> nat option \<Rightarrow> 'k Tree option" where
  "deleteCase5 t node = do {
     s \<leftarrow> sibling t node;
     n \<leftarrow> deref t node;
     p \<leftarrow> deref t (parent n);
     c1 \<leftarrow> cand (Some (node = left p))
           (cand (map_option (\<lambda>c. c = black) (nodeColor t s))
           (cand (do { sd \<leftarrow> deref t s; map_option (\<lambda>c. c = red) (nodeColor t (left sd)) })
                 (do { sd \<leftarrow> deref t s; map_option (\<lambda>c. c = black) (nodeColor t (right sd)) })));
     t' \<leftarrow> (if c1 then do {
         t1 \<leftarrow> update t s (\<lambda>x. x\<lparr>color := red\<rparr>);
         sd \<leftarrow> deref t1 s;
         t2 \<leftarrow> update t1 (left sd) (\<lambda>x. x\<lparr>color := black\<rparr>);
         rotateRight t2 s
       } else do {
         c2 \<leftarrow> cand (Some (node = right p))
               (cand (map_option (\<lambda>c. c = black) (nodeColor t s))
               (cand (do { sd \<leftarrow> deref t s; map_option (\<lambda>c. c = red) (nodeColor t (right sd)) })
                     (do { sd \<leftarrow> deref t s; map_option (\<lambda>c. c = black) (nodeColor t (left sd)) })));
         if c2 then do {
           t1 \<leftarrow> update t s (\<lambda>x. x\<lparr>color := red\<rparr>);
           sd \<leftarrow> deref t1 s;
           t2 \<leftarrow> update t1 (right sd) (\<lambda>x. x\<lparr>color := black\<rparr>);
           rotateLeft t2 s
         } else Some t
       });
     deleteCase6 t' node
   }"

definition deleteCase4 :: "'k Tree \<Rightarrow> nat option \<Rightarrow> 'k Tree option" where
  "deleteCase4 t node = do {
     s \<leftarrow> sibling t node;
     n \<leftarrow> deref t node;
     c \<leftarrow> cand (map_option (\<lambda>c. c = red) (nodeColor t (parent n)))
          (cand (map_option (\<lambda>c. c = black) (nodeColor t s))
          (cand (do { sd \<leftarrow> deref t s; map_option (\<lambda>c. c = black) (nodeColor t (left sd)) })
                (do { sd \<leftarrow> deref t s; map_option (\<lambda>c. c = black) (nodeColor t (right sd)) })));
     if c then do {
       t1 \<leftarrow> update t s (\<lambda>x. x\<lparr>color := red\<rparr>);
       n1 \<leftarrow> deref t1 node;
       update t1 (parent n1) (\<lambda>x. x\<lparr>color := black\<rparr>)
     } else deleteCase5 t node
   }"

definition deleteCase3_body ::
    "('k Tree \<Rightarrow> nat option \<Rightarrow> 'k Tree option) \<Rightarrow> 'k Tree \<Rightarrow> nat option \<Rightarrow> 'k Tree option" where
  "deleteCase3_body deleteCase1' t node = do {
     s \<leftarrow> sibling t node;
     n \<leftarrow> deref t node;
     c \<leftarrow> cand (map_option (\<lambda>c. c = black) (nodeColor t (parent n)))
          (cand (map_option (\<lambda>c. c = black) (nodeColor t s))
          (cand (do { sd \<leftarrow> deref t s; map_option (\<lambda>c. c = black) (nodeColor t (left sd)) })
                (do { sd \<leftarrow> deref t s; map_option (\<lambda>c. c = black) (nodeColor t (right sd)) })));
     if c then do {
       t1 \<leftarrow> update t s (\<lambda>x. x\<lparr>color := red\<rparr>);
       n1 \<leftarrow> deref t1 node;
       deleteCase1' t1 (parent n1)
     } else deleteCase4 t node
   }"

definition deleteCase2_body ::
    "('k Tree \<Rightarrow> nat option \<Rightarrow> 'k Tree option) \<Rightarrow> 'k Tree \<Rightarrow> nat option \<Rightarrow> 'k Tree option" where
  "deleteCase2_body deleteCase1' t node = do {
     s \<leftarrow> sibling t node;
     c \<leftarrow> nodeColor t s;
     t' \<leftarrow> (if c = red then do {
         n \<leftarrow> deref t node;
         t1 \<leftarrow> update t (parent n) (\<lambda>x. x\<lparr>color := red\<rparr>);
         t2 \<leftarrow> update t1 s (\<lambda>x. x\<lparr>color := black\<rparr>);
         n2 \<leftarrow> deref t2 node;
         p2 \<leftarrow> deref t2 (parent n2);
         if node = left p2 then rotateLeft t2 (parent n2) else rotateRight t2 (parent n2)
       } else Some t);
     deleteCase3_body deleteCase1' t' node
   }"

lemma deleteCase3_body_mono [partial_function_mono]:
  assumes "\<And>t n. mono_option (\<lambda>f. F f t n)"
  shows "mono_option (\<lambda>f. deleteCase3_body (F f) t0 n0)"
  unfolding deleteCase3_body_def by (intro partial_function_mono assms)

lemma deleteCase2_body_mono [partial_function_mono]:
  assumes "\<And>t n. mono_option (\<lambda>f. F f t n)"
  shows "mono_option (\<lambda>f. deleteCase2_body (F f) t0 n0)"
  unfolding deleteCase2_body_def by (intro partial_function_mono assms)

partial_function (option) deleteCase1 :: "'k Tree \<Rightarrow> nat option \<Rightarrow> 'k Tree option" where
  "deleteCase1 t node = do {
     n \<leftarrow> deref t node;
     if parent n = None then Some t
     else deleteCase2_body deleteCase1 t node
   }"

declare deleteCase1.simps [code]

definition deleteCase2 :: "'k Tree \<Rightarrow> nat option \<Rightarrow> 'k Tree option" where
  "deleteCase2 = deleteCase2_body deleteCase1"

definition deleteCase3 :: "'k Tree \<Rightarrow> nat option \<Rightarrow> 'k Tree option" where
  "deleteCase3 = deleteCase3_body deleteCase1"

subsection \<open>The operations of \<open>Tree\<close>\<close>

partial_function (option) lookup :: "'k::linorder Tree \<Rightarrow> 'k \<Rightarrow> nat option \<Rightarrow> nat option option" where
  "lookup t k node =
    (if node \<noteq> None then do {
       n \<leftarrow> deref t node;
       let compare = comparator k (key n);
       if compare = 0 then Some node
       else if compare < 0 then lookup t k (left n)
       else lookup t k (right n)
     } else Some None)"

declare lookup.simps [code]

text \<open>
  The loop of \<open>Put\<close> either returns from \<open>Put\<close> (the key is there already) or leaves
  the loop with the new node linked below \<open>node\<close>.
\<close>

datatype 'k loop_exit = Return "'k Tree" | Break "'k Tree" "nat option" "nat option"

partial_function (option) Put_loop ::
    "'k::linorder Tree \<Rightarrow> 'k \<Rightarrow> Value \<Rightarrow> nat option \<Rightarrow> 'k loop_exit option" where
  "Put_loop t k v node = do {
     n \<leftarrow> deref t node;
     let compare = comparator k (key n);
     if compare = 0 then
       (if \<exists>x \<in> set (vals n). ID x = ID v then Some (Return t)
        else do {
          t1 \<leftarrow> update (t\<lparr>size' := size' t + 1\<rparr>) node (\<lambda>n. n\<lparr>vals := vals n @ [v]\<rparr>);
          Some (Return t1)
        })
     else if compare < 0 then
       (if left n = None then do {
          let (insertedNode, t1) = new_node (t\<lparr>size' := size' t + 1\<rparr>) k v;
          t2 \<leftarrow> update t1 node (\<lambda>n. n\<lparr>left := insertedNode\<rparr>);
          Some (Break t2 insertedNode node)
        } else Put_loop t k v (left n))
     else
       (if right n = None then do {
          let (insertedNode, t1) = new_node (t\<lparr>size' := size' t + 1\<rparr>) k v;
          t2 \<leftarrow> update t1 node (\<lambda>n. n\<lparr>right := insertedNode\<rparr>);
          Some (Break t2 insertedNode node)
        } else Put_loop t k v (right n))
   }"

declare Put_loop.simps [code]

definition Put :: "'k::linorder Tree \<Rightarrow> 'k option \<Rightarrow> Value option \<Rightarrow> 'k Tree option" where
  "Put t key' value' =
    (case (key', value') of
       (Some k, Some v) \<Rightarrow>
         if root t = None then do {
           let (insertedNode, t1) = new_node (t\<lparr>size' := size' t + 1\<rparr>) k v;
           insertCase1 (t1\<lparr>root := insertedNode\<rparr>) insertedNode
         } else do {
           e \<leftarrow> Put_loop t k v (root t);
           case e of
             Return t1 \<Rightarrow> Some t1
           | Break t1 insertedNode node \<Rightarrow> do {
               t2 \<leftarrow> update t1 insertedNode (\<lambda>n. n\<lparr>parent := node\<rparr>);
               insertCase1 t2 insertedNode
             }
         }
     | _ \<Rightarrow> Some t)"

definition Get :: "'k::linorder Tree \<Rightarrow> 'k option \<Rightarrow> (Value list \<times> bool) option" where
  "Get t key' =
    (case key' of
       None \<Rightarrow> Some ([], False)
     | Some k \<Rightarrow> do {
         node \<leftarrow> lookup t k (root t);
         if node \<noteq> None then do { n \<leftarrow> deref t node; Some (vals n, True) }
         else Some ([], False)
       })"

definition Remove :: "'k::linorder Tree \<Rightarrow> 'k option \<Rightarrow> 'k Tree option" where
  "Remove t key' =
    (case key' of
       None \<Rightarrow> Some t
     | Some k \<Rightarrow> do {
         node \<leftarrow> lookup t k (root t);
         if node = None then Some t
         else do {
           n \<leftarrow> deref t node;
           let t1 = t\<lparr>size' := size' t - int (length (vals n))\<rparr>;
           (t2, node2) \<leftarrow>
             (if left n \<noteq> None \<and> right n \<noteq> None then do {
                pred \<leftarrow> maximumNode t1 (left n);
                pd \<leftarrow> deref t1 pred;
                ta \<leftarrow> update t1 node (\<lambda>n. n\<lparr>key := key pd\<rparr>);
                pd' \<leftarrow> deref ta pred;
                tb \<leftarrow> update ta node (\<lambda>n. n\<lparr>vals := vals pd'\<rparr>);
                Some (tb, pred)
              } else Some (t1, node));
           n2 \<leftarrow> deref t2 node2;
           if left n2 = None \<or> right n2 = None then do {
             let child = (if right n2 = None then left n2 else right n2);
             t3 \<leftarrow> (if color n2 = black then do {
                      c \<leftarrow> nodeColor t2 child;
                      ta \<leftarrow> update t2 node2 (\<lambda>n. n\<lparr>color := c\<rparr>);
                      deleteCase1 ta node2
                    } else Some t2);
             t4 \<leftarrow> replaceNode t3 node2 child;
             n4 \<leftarrow> deref t4 node2;
             if parent n4 = None \<and> child \<noteq> None
             then update t4 child (\<lambda>n. n\<lparr>color := black\<rparr>)
             else Some t4
           } else Some t2
         }
       })"

definition Empty :: "'k Tree \<Rightarrow> bool" where
  "Empty t = (size' t = 0)"

definition Size :: "'k Tree \<Rightarrow> int" where
  "Size t = size' t"

text \<open>
  The loops of \<open>Left\<close> and \<open>Right\<close> carry the Go variables \<open>parent\<close> and
  \<open>current\<close>.
\<close>

partial_function (option) Left_loop :: "'k Tree \<Rightarrow> nat option \<Rightarrow> nat option \<Rightarrow> nat option option" where
  "Left_loop t parent' current =
    (if current \<noteq> None then do { c \<leftarrow> deref t current; Left_loop t current (left c) }
     else Some parent')"

declare Left_loop.simps [code]

definition Left :: "'k Tree \<Rightarrow> Value list option" where
  "Left t = do {
     parent' \<leftarrow> Left_loop t None (root t);
     if parent' \<noteq> None then do { p \<leftarrow> deref t parent'; Some (vals p) } else Some []
   }"

partial_function (option) Right_loop :: "'k Tree \<Rightarrow> nat option \<Rightarrow> nat option \<Rightarrow> nat option option" where
  "Right_loop t parent' current =
    (if current \<noteq> None then do { c \<leftarrow> deref t current; Right_loop t current (right c) }
     else Some parent')"

declare Right_loop.simps [code]

definition Right :: "'k Tree \<Rightarrow> Value list option" where
  "Right t = do {
     parent' \<leftarrow> Right_loop t None (root t);
     if parent' \<noteq> None then do { p \<leftarrow> deref t parent'; Some (vals p) } else Some []
   }"

text \<open>The loops of \<open>Floor\<close> and \<open>Ceiling\<close> carry \<open>floor\<close> (\<open>ceiling\<close>), \<open>found\<close> and \<open>node\<close>.\<close>

partial_function (option) Floor_loop ::
    "'k::linorder Tree \<Rightarrow> 'k \<Rightarrow> Value list \<Rightarrow> bool \<Rightarrow> nat option \<Rightarrow> (Value list \<times> bool) option" where
  "Floor_loop t k floor' found node =
    (if node \<noteq> None then do {
       n \<leftarrow> deref t node;
       let compare = comparator k (key n);
       if compare = 0 then Some (vals n, True)
       else if compare < 0 then Floor_loop t k floor' found (left n)
       else Floor_loop t k (vals n) True (right n)
     } else if found then Some (floor', True) else Some ([], False))"

declare Floor_loop.simps [code]

definition Floor :: "'k::linorder Tree \<Rightarrow> 'k \<Rightarrow> (Value list \<times> bool) option" where
  "Floor t k = Floor_loop t k [] False (root t)"

partial_function (option) Ceiling_loop ::
    "'k::linorder Tree \<Rightarrow> 'k \<Rightarrow> Value list \<Rightarrow> bool \<Rightarrow> nat option \<Rightarrow> (Value list \<times> bool) option" where
  "Ceiling_loop t k ceiling' found node =
    (if node \<noteq> None then do {
       n \<leftarrow> deref t node;
       let compare = comparator k (key n);
       if compare = 0 then Some (vals n, True)
       else if compare < 0 then Ceiling_loop t k (vals n) True (left n)
       else Ceiling_loop t k ceiling' found (right n)
     } else if found then Some (ceiling', True) else Some ([], False))"

declare Ceiling_loop.simps [code]

definition Ceiling :: "'k::linorder Tree \<Rightarrow> 'k \<Rightarrow> (Value list \<times> bool) option" where
  "Ceiling t k = Ceiling_loop t k [] False (root t)"

definition Clear :: "'k Tree \<Rightarrow> 'k Tree" where
  "Clear t = t\<lparr>root := None, size' := 0\<rparr>"

section \<open>Nil arguments\<close>

text \<open>
  Claim C9. \<open>Put\<close> with a nil key or a nil value, and \<open>Remove\<close> with a nil key, return
  normally (neither has an error result) and leave the tree state as it was: the same
  root, the same size and the same nodes, whatever the state.
\<close>

theorem nil_arguments_ignored:
  "Put t None value' = Some t \<and> Put t key' None = Some t \<and> Remove t None = Some t"
  by (simp add: Put_def Remove_def split: option.splits)

theorem nil_arguments_ignored_witness:
  "Put (\<lparr>root = Some 0, size' = 1,
         nodes = [\<lparr>key = 5::int, vals = [Value ''A'' ''a''], color = black,
                   left = None, right = None, parent = None\<rparr>]\<rparr>) None (Some (Value ''B'' ''b''))
     = Some \<lparr>root = Some 0, size' = 1,
         nodes = [\<lparr>key = 5::int, vals = [Value ''A'' ''a''], color = black,
                   left = None, right = None, parent = None\<rparr>]\<rparr>
   \<and> Put (NewWith :: int Tree) (Some 3) None = Some NewWith
   \<and> Remove (NewWith :: int Tree) None = Some NewWith"
  using nil_arguments_ignored [of "\<lparr>root = Some 0, size' = 1,
         nodes = [\<lparr>key = 5::int, vals = [Value ''A'' ''a''], color = black,
                   left = None, right = None, parent = None\<rparr>]\<rparr>" "Some (Value ''B'' ''b'')"]
        nil_arguments_ignored [of "NewWith :: int Tree" "None" "Some 3"]
  by simp

end
